theory Spec2Isabelle
  imports Complex_Main
begin

unbundle bit_operations_syntax

section \<open>Session identifiers (session registry source, \<open>tabRegexp\<close>, \<open>parseTabID\<close>)\<close>

text \<open>
  Go strings are byte sequences; they are modelled as \<^typ>\<open>string\<close> (lists of
  \<^typ>\<open>char\<close>), and \<open>len\<close> is \<^const>\<open>length\<close>.
\<close>

text \<open>A Go \<open>error\<close> is modelled by its message.\<close>

type_synonym error = string

text \<open>The POSIX class \<open>[[:xdigit:]]\<close> of the regular expression: \<open>[0-9A-Fa-f]\<close>.\<close>

definition isxdigit :: "char \<Rightarrow> bool" where
  "isxdigit c = (c \<in> set ''0123456789abcdefABCDEF'')"

text \<open>
  \<open>tabRegexp = ^([[:xdigit:]]{8,})_([[:xdigit:]]{8})$\<close>, applied with
  \<open>FindStringSubmatch\<close>. Both anchors are present (without the \<open>m\<close> flag \<open>$\<close> matches
  only at the end of the text), so a match covers the whole string. The first group is
  followed by an underscore, which is no hex digit, so the group is the maximal run of hex
  digits at the start of the string; it must have at least eight characters. The rest must be
  an underscore and exactly eight hex digits. The result is the pair of the two groups
  (\<open>m[1]\<close>, \<open>m[2]\<close>), or \<open>None\<close> where Go returns a nil slice.
\<close>

definition tabRegexp :: "string \<Rightarrow> (string \<times> string) option" where
  "tabRegexp s =
     (let p = takeWhile isxdigit s; r = dropWhile isxdigit s in
      if 8 \<le> length p then
        (case r of
           [] \<Rightarrow> None
         | c # t \<Rightarrow>
             if c = CHR ''_'' \<and> length t = 8 \<and> list_all isxdigit t then Some (p, t)
             else None)
      else None)"

text \<open>
  \<open>parseTabID\<close>: the error of the source is \<open>illegal tab ID format "<id>"\<close>; on success the
  prefix and the suffix are the two groups.
\<close>

definition parseTabID :: "string \<Rightarrow> error + (string \<times> string)" where
  "parseTabID ident =
     (case tabRegexp ident of
        None \<Rightarrow> Inl (''illegal tab ID format \"'' @ ident @ ''\"'')
      | Some (prefix, suffix) \<Rightarrow> Inr (prefix, suffix))"

text \<open>
  The grammar of the specification, in its words: \<open>WindowID := 8 HEX\<close>,
  \<open>TabID := WindowID "_" 8 HEX\<close>. It is used only to compare it with \<^const>\<open>parseTabID\<close>.
\<close>

definition spec_WindowID :: "string \<Rightarrow> bool" where
  "spec_WindowID s = (length s = 8 \<and> list_all isxdigit s)"

definition spec_TabID :: "string \<Rightarrow> bool" where
  "spec_TabID s =
     (length s = 17 \<and> spec_WindowID (take 8 s) \<and> s ! 8 = CHR ''_'' \<and> spec_WindowID (drop 9 s))"

text \<open>
  \<open>createSessionID\<close> is \<open>fmt.Sprintf("%08x", rand.Int63()&0xffffffff)\<close>. The random number
  is an input of the model. \<open>hex_digits\<close> is the lower-case hexadecimal numeral of a natural
  number, most significant digit first, and \<open>sprintf_08x\<close> pads it with zeros on the left to a
  width of at least eight.
\<close>

definition hexdigit :: "nat \<Rightarrow> char" where
  "hexdigit d = ''0123456789abcdef'' ! d"

fun hex_digits :: "nat \<Rightarrow> string" where
  "hex_digits n =
     (if n < 16 then [hexdigit n] else hex_digits (n div 16) @ [hexdigit (n mod 16)])"

declare hex_digits.simps [simp del]

definition sprintf_08x :: "nat \<Rightarrow> string" where
  "sprintf_08x n = (let ds = hex_digits n in replicate (8 - length ds) CHR ''0'' @ ds)"

definition createSessionID :: "int \<Rightarrow> string" where
  "createSessionID rnd = sprintf_08x (nat (rnd AND 0xffffffff))"

section \<open>The session registry (\<open>session\<close>, \<open>AllocateSessions\<close>)\<close>

text \<open>
  \<open>time.Duration\<close> and \<open>time.Time\<close> are counts of nanoseconds; the registry only compares
  and stores them, so they are integers. Browser contexts and cancel functions are opaque
  to the registry: they are kept as terms that record how they were built.
\<close>

type_synonym duration = int
type_synonym timestamp = int

definition Second :: duration where
  "Second = 1000000000"

datatype Context =
    NilContext
  | Background
  | ExecAllocator Context
  | NewContext Context
  | WithTimeout Context duration

datatype cancelFunc =
    NilCancel
  | CancelContext Context
  | ClosePage Context

record session =
  s_ctx :: Context
  s_cancel :: cancelFunc
  s_id :: string
  s_last :: timestamp
  s_timeout :: duration

text \<open>The zero value of \<open>session\<close>, which a Go map returns for an absent key.\<close>

definition zero_session :: session where
  "zero_session =
     \<lparr>s_ctx = NilContext, s_cancel = NilCancel, s_id = [], s_last = 0, s_timeout = 0\<rparr>"

text \<open>
  The strings written to standard error (one entry for each \<open>Fprintf\<close>), and the cancel
  functions that have been called.
\<close>

record effects =
  stderr :: "string list"
  cancelled :: "cancelFunc list"

record registry = effects +
  windows :: "string \<rightharpoonup> session"
  tabs :: "string \<rightharpoonup> session"

text \<open>\<open>createWindow\<close>; \<open>debugMode\<close> and the random number are inputs.\<close>

definition createWindow :: "bool \<Rightarrow> int \<Rightarrow> string \<Rightarrow> session" where
  "createWindow debugMode rnd ident =
     (let ctx = (if debugMode then ExecAllocator Background else NewContext Background) in
      \<lparr>s_ctx = NewContext ctx,
       s_cancel = CancelContext ctx,
       s_id = (if length ident < 8 then createSessionID rnd else ident),
       s_last = 0,
       s_timeout = 0\<rparr>)"

text \<open>\<open>session.shutdown\<close>, on any record that carries the effects.\<close>

definition shutdown :: "session \<Rightarrow> ('a effects_scheme) \<Rightarrow> ('a effects_scheme)" where
  "shutdown ses w =
     (if s_cancel ses = NilCancel
      then w\<lparr>stderr := stderr w @ [''Expected non-nil cancelFunc when shutting down tab/window (session ''
                                  @ s_id ses @ '')'' @ [CHR 0x0A]]\<rparr>
      else w\<lparr>cancelled := cancelled w @ [s_cancel ses]\<rparr>)"

text \<open>
  The cases of the \<open>select\<close> in \<open>AllocateSessions\<close>, one function for each channel. Each
  takes the registry state and returns the reply sent (if the case sends one) and the new
  state. \<open>now\<close> is the value of \<open>time.Now()\<close>.
\<close>

definition on_windowQuery ::
    "bool \<Rightarrow> timestamp \<Rightarrow> int \<Rightarrow> session \<Rightarrow> registry \<Rightarrow> session \<times> registry" where
  "on_windowQuery debugMode now rnd q reg =
     (let w = (case windows reg (s_id q) of
                 None \<Rightarrow> (createWindow debugMode rnd (s_id q))\<lparr>s_timeout := 30 * Second\<rparr>
               | Some w \<Rightarrow> w);
          w = (if s_timeout q > s_timeout w then w\<lparr>s_timeout := s_timeout q\<rparr> else w);
          w = w\<lparr>s_last := now\<rparr>
      in (w, reg\<lparr>windows := (windows reg)(s_id w \<mapsto> w)\<rparr>))"

definition on_windowClose :: "string \<Rightarrow> registry \<Rightarrow> registry" where
  "on_windowClose ident reg =
     (case windows reg ident of
        Some w \<Rightarrow> (shutdown w reg)\<lparr>windows := (windows reg)(ident := None)\<rparr>
      | None \<Rightarrow> reg)"

definition on_tabSave :: "session \<Rightarrow> registry \<Rightarrow> registry" where
  "on_tabSave t reg = reg\<lparr>tabs := (tabs reg)(s_id t \<mapsto> t)\<rparr>"

definition on_tabLoadQuery :: "timestamp \<Rightarrow> string \<Rightarrow> registry \<Rightarrow> session \<times> registry" where
  "on_tabLoadQuery now ident reg =
     (let reply = (case tabs reg ident of Some t \<Rightarrow> t | None \<Rightarrow> zero_session);
          reg = reg\<lparr>tabs := (tabs reg)(ident := None)\<rparr>
      in (reply,
          case parseTabID ident of
            Inl err \<Rightarrow> reg\<lparr>stderr := stderr reg @ [''Tab ID parse error: '' @ err @ [CHR 0x0A]]\<rparr>
          | Inr (prefix, suffix) \<Rightarrow>
              (case windows reg prefix of
                 Some w \<Rightarrow> reg\<lparr>windows := (windows reg)(prefix \<mapsto> w\<lparr>s_last := now\<rparr>)\<rparr>
               | None \<Rightarrow> reg\<lparr>stderr := stderr reg @ [''Tab ID ('' @ ident @ '') didn't match any window'' @ [CHR 0x0A]]\<rparr>)))"

datatype message =
    WindowQuery session
  | WindowClose string
  | TabSave session
  | TabLoadQuery string

fun AllocateSessions_step ::
    "bool \<Rightarrow> timestamp \<Rightarrow> int \<Rightarrow> message \<Rightarrow> registry \<Rightarrow> session option \<times> registry" where
  "AllocateSessions_step debugMode now rnd (WindowQuery q) reg =
     (let (w, reg') = on_windowQuery debugMode now rnd q reg in (Some w, reg'))"
| "AllocateSessions_step debugMode now rnd (WindowClose ident) reg =
     (None, on_windowClose ident reg)"
| "AllocateSessions_step debugMode now rnd (TabSave t) reg = (None, on_tabSave t reg)"
| "AllocateSessions_step debugMode now rnd (TabLoadQuery ident) reg =
     (let (t, reg') = on_tabLoadQuery now ident reg in (Some t, reg'))"

text \<open>
  The client side of the channels: \<open>loadWindow\<close> sends a session holding only the id and the
  timeout and returns the reply; \<open>loadTab\<close> and \<open>saveTab\<close> likewise.
\<close>

definition loadWindow ::
    "bool \<Rightarrow> timestamp \<Rightarrow> int \<Rightarrow> string \<Rightarrow> duration \<Rightarrow> registry \<Rightarrow> session \<times> registry" where
  "loadWindow debugMode now rnd ident timeout reg =
     on_windowQuery debugMode now rnd (zero_session\<lparr>s_id := ident, s_timeout := timeout\<rparr>) reg"

definition loadTab :: "timestamp \<Rightarrow> string \<Rightarrow> registry \<Rightarrow> session \<times> registry" where
  "loadTab now ident reg = on_tabLoadQuery now ident reg"

definition saveTab :: "session \<Rightarrow> registry \<Rightarrow> registry" where
  "saveTab ses reg = on_tabSave ses reg"

text \<open>
  \<open>createSiblingTabWithTimeout\<close>. The source returns the sibling only; the model also
  returns the value of the receiver \<open>ses\<close> at the moment the sibling is built (the window the
  tab is created under) and the registry state. \<open>rnd_w\<close> is the random number available to
  the registry should it create a window, \<open>rnd_t\<close> the one used for the tab id.
\<close>

definition createSiblingTabWithTimeout ::
    "bool \<Rightarrow> timestamp \<Rightarrow> int \<Rightarrow> int \<Rightarrow> session \<Rightarrow> duration \<Rightarrow> registry
       \<Rightarrow> session \<times> session \<times> registry" where
  "createSiblingTabWithTimeout debugMode now rnd_w rnd_t ses timeout reg =
     (let (ses, reg) =
            (if timeout > s_timeout ses
             then loadWindow debugMode now rnd_w (s_id ses) timeout reg
             else (ses, reg));
          ident = s_id ses @ ''_'' @ createSessionID rnd_t;
          ctx = WithTimeout (NewContext (s_ctx ses)) timeout;
          sibling = \<lparr>s_ctx = ctx, s_cancel = ClosePage ctx, s_id = ident,
                     s_last = 0, s_timeout = timeout\<rparr>
      in (sibling, ses, reg))"

text \<open>
  The state in which \<open>AllocateSessions\<close> enters its loop (both maps empty), and the
  property that every window is stored under its own id and that ids in the window map have at
  least eight characters.
\<close>

definition reg0 :: registry where
  "reg0 = \<lparr>stderr = [], cancelled = [], windows = Map.empty, tabs = Map.empty\<rparr>"

definition windows_wf :: "registry \<Rightarrow> bool" where
  "windows_wf reg = (\<forall>k w. windows reg k = Some w \<longrightarrow> s_id w = k \<and> 8 \<le> length k)"

text \<open>Sessions used as concrete inputs below.\<close>

definition tab_ex :: session where
  "tab_ex = \<lparr>s_ctx = NilContext, s_cancel = NilCancel, s_id = ''deadbeef_00000001'',
             s_last = 0, s_timeout = 20 * Second\<rparr>"

definition win_ex :: session where
  "win_ex = \<lparr>s_ctx = NewContext (NewContext Background),
             s_cancel = CancelContext (NewContext Background), s_id = ''deadbeef'',
             s_last = 1, s_timeout = 30 * Second\<rparr>"

section \<open>Properties of the session identifiers\<close>

lemma underscore_not_xdigit: "\<not> isxdigit CHR ''_''"
  by (simp add: isxdigit_def)

lemma tabRegexp_Some_iff:
  "tabRegexp s = Some (p, t) \<longleftrightarrow>
     s = p @ ''_'' @ t \<and> 8 \<le> length p \<and> list_all isxdigit p \<and>
     length t = 8 \<and> list_all isxdigit t"
proof
  assume a: "tabRegexp s = Some (p, t)"
  have st: "s = takeWhile isxdigit s @ dropWhile isxdigit s" by simp
  from a have p: "p = takeWhile isxdigit s" and l: "8 \<le> length p"
    by (auto simp: tabRegexp_def Let_def split: if_splits list.splits)
  from a have r: "dropWhile isxdigit s = CHR ''_'' # t" and t: "length t = 8" "list_all isxdigit t"
    by (auto simp: tabRegexp_def Let_def split: if_splits list.splits)
  have "list_all isxdigit p" unfolding p by (simp add: list_all_iff) (meson set_takeWhileD)
  with st p r l t show "s = p @ ''_'' @ t \<and> 8 \<le> length p \<and> list_all isxdigit p \<and>
     length t = 8 \<and> list_all isxdigit t" by simp
next
  assume a: "s = p @ ''_'' @ t \<and> 8 \<le> length p \<and> list_all isxdigit p \<and>
     length t = 8 \<and> list_all isxdigit t"
  then have s: "s = p @ CHR ''_'' # t" and ap: "\<forall>x\<in>set p. isxdigit x" by (simp_all add: list_all_iff)
  have tw: "takeWhile isxdigit s = p" unfolding s using ap underscore_not_xdigit
    by (simp add: takeWhile_tail)
  have dw: "dropWhile isxdigit s = CHR ''_'' # t" unfolding s using ap underscore_not_xdigit
    by (simp add: dropWhile_append3)
  show "tabRegexp s = Some (p, t)" using a tw dw by (simp add: tabRegexp_def)
qed

lemma parseTabID_accepts_iff:
  "parseTabID ident = Inr (p, t) \<longleftrightarrow>
     ident = p @ ''_'' @ t \<and> 8 \<le> length p \<and> list_all isxdigit p \<and>
     length t = 8 \<and> list_all isxdigit t"
proof -
  have "parseTabID ident = Inr (p, t) \<longleftrightarrow> tabRegexp ident = Some (p, t)"
    by (auto simp: parseTabID_def split: option.splits)
  then show ?thesis by (simp only: tabRegexp_Some_iff)
qed

lemma parseTabID_cases:
  "parseTabID ident = Inl (''illegal tab ID format \"'' @ ident @ ''\"'') \<or> (\<exists>p t. parseTabID ident = Inr (p, t))"
  by (auto simp: parseTabID_def split: option.splits)

text \<open>
  Claim C1, as amended. \<open>parseTabID\<close> succeeds exactly on the strings that consist of a
  window group of eight \<^emph>\<open>or more\<close> hex digits, one underscore and a tab group of exactly
  eight hex digits (the quantifier of the first group is \<open>{8,}\<close>); every other string is
  rejected with the error \<open>illegal tab ID format\<close>. The strings of the grammar of the
  specification are exactly the accepted strings whose window group has eight digits.
\<close>

theorem parseTabID_grammar:
  "(\<exists>p t. parseTabID ident = Inr (p, t)) =
     (\<exists>p t. ident = p @ ''_'' @ t \<and> 8 \<le> length p \<and> list_all isxdigit p \<and>
            length t = 8 \<and> list_all isxdigit t)
   \<and> ((\<nexists>p t. parseTabID ident = Inr (p, t)) = (parseTabID ident = Inl (''illegal tab ID format \"'' @ ident @ ''\"'')))
   \<and> (spec_TabID ident = (\<exists>p t. parseTabID ident = Inr (p, t) \<and> length p = 8))"
proof (intro conjI)
  show "(\<exists>p t. parseTabID ident = Inr (p, t)) =
     (\<exists>p t. ident = p @ ''_'' @ t \<and> 8 \<le> length p \<and> list_all isxdigit p \<and>
            length t = 8 \<and> list_all isxdigit t)"
    by (simp only: parseTabID_accepts_iff)
  show "(\<nexists>p t. parseTabID ident = Inr (p, t)) = (parseTabID ident = Inl (''illegal tab ID format \"'' @ ident @ ''\"''))"
    using parseTabID_cases[of ident] by auto
  show "spec_TabID ident = (\<exists>p t. parseTabID ident = Inr (p, t) \<and> length p = 8)"
  proof
    assume s: "spec_TabID ident"
    then have len: "length ident = 17" by (simp add: spec_TabID_def)
    have "ident = take 8 ident @ drop 8 ident" by simp
    moreover have "drop 8 ident = ident ! 8 # drop 9 ident"
      using len Cons_nth_drop_Suc[of 8 ident] by simp
    ultimately have "ident = take 8 ident @ ''_'' @ drop 9 ident"
      using s by (simp add: spec_TabID_def)
    moreover have "8 \<le> length (take 8 ident)" "list_all isxdigit (take 8 ident)"
      "length (drop 9 ident) = 8"  "list_all isxdigit (drop 9 ident)" "length (take 8 ident) = 8"
      using s len by (simp_all add: spec_TabID_def spec_WindowID_def)
    ultimately have "parseTabID ident = Inr (take 8 ident, drop 9 ident) \<and> length (take 8 ident) = 8"
      by (simp only: parseTabID_accepts_iff)
    then show "\<exists>p t. parseTabID ident = Inr (p, t) \<and> length p = 8" by blast
  next
    assume "\<exists>p t. parseTabID ident = Inr (p, t) \<and> length p = 8"
    then obtain p t where "parseTabID ident = Inr (p, t)" and p8: "length p = 8" by blast
    then have "ident = p @ ''_'' @ t \<and> 8 \<le> length p \<and> list_all isxdigit p \<and>
     length t = 8 \<and> list_all isxdigit t" by (simp only: parseTabID_accepts_iff)
    with p8 show "spec_TabID ident"
      by (simp add: spec_TabID_def spec_WindowID_def nth_append)
  qed
qed

theorem parseTabID_grammar_witness:
  "(\<exists>p t. parseTabID ''deadbeef_00000001'' = Inr (p, t)) \<and> spec_TabID ''deadbeef_00000001''"
proof -
  have s: "spec_TabID ''deadbeef_00000001''"
    by (simp add: spec_TabID_def spec_WindowID_def isxdigit_def)
  from parseTabID_grammar[of "''deadbeef_00000001''"] s show ?thesis by blast
qed

text \<open>
  Claim C1 as stated fails: a string whose first group has ten hex digits is accepted,
  although it is no \<open>TabID\<close> of the grammar.
\<close>

theorem parseTabID_counterexample:
  "parseTabID ''0123456789_abcdef01'' = Inr (''0123456789'', ''abcdef01'')
   \<and> \<not> spec_TabID ''0123456789_abcdef01''"
  by (simp add: parseTabID_def tabRegexp_def isxdigit_def spec_TabID_def)

section \<open>Properties of \<open>createSessionID\<close>\<close>

lemma length_hex_digits: "n < 16 ^ k \<Longrightarrow> 0 < k \<Longrightarrow> length (hex_digits n) \<le> k"
proof (induction n arbitrary: k rule: hex_digits.induct)
  case (1 n)
  show ?case
  proof (cases "n < 16")
    case True
    then show ?thesis using "1.prems" by (simp add: hex_digits.simps)
  next
    case False
    then obtain k' where k: "k = Suc k'" using "1.prems" by (cases k) auto
    with False "1.prems" have k'0: "0 < k'" by (cases k') auto
    from "1.prems" k have "n div 16 < 16 ^ k'"
      by (simp add: less_mult_imp_div_less mult.commute)
    from "1.IH"[OF False this k'0] False k show ?thesis
      by (subst hex_digits.simps) simp
  qed
qed

lemma hexdigit_xdigit: "d < 16 \<Longrightarrow> isxdigit (hexdigit d)"
proof -
  assume "d < 16"
  then have "d \<in> set [0..<16]" by simp
  then have "d \<in> {0,1,2,3,4,5,6,7,8,9,10,11,12,13,14,15}"
    by (simp add: upt_rec numeral_eq_Suc)  
  then show ?thesis by (auto simp: hexdigit_def isxdigit_def)
qed

lemma hex_digits_xdigit: "list_all isxdigit (hex_digits n)"
  by (induction n rule: hex_digits.induct)
     (subst hex_digits.simps, simp add: hexdigit_xdigit)

lemma zero_xdigit: "isxdigit CHR ''0''"
  by (simp add: isxdigit_def)

lemma createSessionID_WindowID: "spec_WindowID (createSessionID rnd)"
proof -
  define n where "n = nat (rnd AND 0xffffffff)"
  have "rnd AND 0xffffffff \<le> 0xffffffff"
    by (rule AND_upper2) simp
  then have "nat (rnd AND 0xffffffff) < 4294967296" by linarith
  then have "n < 16 ^ 8" by (simp add: n_def)
  then have len: "length (hex_digits n) \<le> 8" by (rule length_hex_digits) simp
  have "length (sprintf_08x n) = 8" using len by (simp add: sprintf_08x_def Let_def)
  moreover have "list_all isxdigit (sprintf_08x n)"
    using hex_digits_xdigit[of n] zero_xdigit by (auto simp add: sprintf_08x_def Let_def list_all_iff)
  ultimately show ?thesis by (simp add: spec_WindowID_def createSessionID_def n_def)
qed


section \<open>Properties of the session registry\<close>

lemma length_createSessionID: "length (createSessionID rnd) = 8"
  using createSessionID_WindowID[of rnd] by (simp add: spec_WindowID_def)

lemma createWindow_id:
  "s_id (createWindow debugMode rnd ident) = (if length ident < 8 then createSessionID rnd else ident)"
  by (simp add: createWindow_def Let_def)

lemma on_windowQuery_new:
  assumes "windows reg (s_id q) = None"
  shows "fst (on_windowQuery debugMode now rnd q reg) =
           (createWindow debugMode rnd (s_id q))
             \<lparr>s_timeout := max (30 * Second) (s_timeout q), s_last := now\<rparr>"
  using assms by (simp add: on_windowQuery_def Let_def max_def)

lemma on_windowQuery_found:
  assumes "windows reg (s_id q) = Some w0"
  shows "fst (on_windowQuery debugMode now rnd q reg) =
           w0\<lparr>s_timeout := max (s_timeout w0) (s_timeout q), s_last := now\<rparr>"
  using assms by (simp add: on_windowQuery_def Let_def max_def)

lemma on_windowQuery_store:
  "snd (on_windowQuery debugMode now rnd q reg) =
     reg\<lparr>windows := (windows reg)(s_id (fst (on_windowQuery debugMode now rnd q reg)) \<mapsto>
                       fst (on_windowQuery debugMode now rnd q reg))\<rparr>"
  by (simp add: on_windowQuery_def Let_def)

lemma on_windowQuery_timeout_ge:
  "s_timeout q \<le> s_timeout (fst (on_windowQuery debugMode now rnd q reg))"
  by (cases "windows reg (s_id q)") (simp_all add: on_windowQuery_new on_windowQuery_found)

lemma windows_wf_reg0: "windows_wf reg0"
  by (simp add: windows_wf_def reg0_def)

lemma windows_wf_windowQuery:
  assumes "windows_wf reg"
  shows "windows_wf (snd (on_windowQuery debugMode now rnd q reg))"
proof (cases "windows reg (s_id q)")
  case None
  let ?w = "fst (on_windowQuery debugMode now rnd q reg)"
  have "8 \<le> length (s_id ?w)"
    by (simp add: on_windowQuery_new[OF None] createWindow_id length_createSessionID)
  then show ?thesis using assms
    by (subst on_windowQuery_store) (auto simp: windows_wf_def)
next
  case (Some w0)
  let ?w = "fst (on_windowQuery debugMode now rnd q reg)"
  have "s_id ?w = s_id q" "8 \<le> length (s_id q)" using assms Some
    by (auto simp: on_windowQuery_found[OF Some] windows_wf_def)
  then show ?thesis using assms
    by (subst on_windowQuery_store) (auto simp: windows_wf_def)
qed

lemma windows_wf_windowClose: "windows_wf reg \<Longrightarrow> windows_wf (on_windowClose ident reg)"
  by (auto simp: windows_wf_def on_windowClose_def shutdown_def split: option.splits)

lemma windows_wf_tabSave: "windows_wf reg \<Longrightarrow> windows_wf (on_tabSave t reg)"
  by (simp add: windows_wf_def on_tabSave_def)

lemma windows_wf_tabLoadQuery: "windows_wf reg \<Longrightarrow> windows_wf (snd (on_tabLoadQuery now ident reg))"
  by (auto simp: windows_wf_def on_tabLoadQuery_def Let_def split: sum.splits option.splits)

lemma windows_wf_step:
  "windows_wf reg \<Longrightarrow> windows_wf (snd (AllocateSessions_step debugMode now rnd m reg))"
  by (cases m)
     (simp_all add: split_beta windows_wf_windowQuery windows_wf_windowClose windows_wf_tabSave
        windows_wf_tabLoadQuery)

text \<open>
  Claim C2, as amended. On \<open>WINDOW_QUERY\<close> with an id that is not in the window map, a new
  window is created whose id is a freshly generated 8-hex id when the supplied id has fewer
  than eight characters and the supplied id otherwise, and whose timeout is the larger of 30
  seconds and the requested timeout. With an id that is in the map, the timeout of that window
  becomes the maximum of its timeout and the requested one. In both cases \<open>last_used\<close> is
  the current time, the resulting window is the reply, and it is stored under its id. In a
  registry whose window ids all have at least eight characters the empty id is never found.
\<close>

theorem windowQuery_reply:
  "(windows reg (s_id q) = None \<longrightarrow>
       fst (on_windowQuery debugMode now rnd q reg) =
         (createWindow debugMode rnd (s_id q))
            \<lparr>s_timeout := max (30 * Second) (s_timeout q), s_last := now\<rparr>
       \<and> s_id (fst (on_windowQuery debugMode now rnd q reg)) =
            (if length (s_id q) < 8 then createSessionID rnd else s_id q)
       \<and> spec_WindowID (createSessionID rnd))
   \<and> (\<forall>w0. windows reg (s_id q) = Some w0 \<longrightarrow>
         fst (on_windowQuery debugMode now rnd q reg) =
           w0\<lparr>s_timeout := max (s_timeout w0) (s_timeout q), s_last := now\<rparr>)
   \<and> s_last (fst (on_windowQuery debugMode now rnd q reg)) = now
   \<and> AllocateSessions_step debugMode now rnd (WindowQuery q) reg =
       (Some (fst (on_windowQuery debugMode now rnd q reg)),
        reg\<lparr>windows := (windows reg)(s_id (fst (on_windowQuery debugMode now rnd q reg)) \<mapsto>
                       fst (on_windowQuery debugMode now rnd q reg))\<rparr>)
   \<and> (windows_wf reg \<and> s_id q = [] \<longrightarrow> windows reg (s_id q) = None)"
proof (intro conjI impI allI)
  assume n: "windows reg (s_id q) = None"
  show "fst (on_windowQuery debugMode now rnd q reg) =
         (createWindow debugMode rnd (s_id q))
            \<lparr>s_timeout := max (30 * Second) (s_timeout q), s_last := now\<rparr>"
    by (rule on_windowQuery_new[OF n])
  then show "s_id (fst (on_windowQuery debugMode now rnd q reg)) =
            (if length (s_id q) < 8 then createSessionID rnd else s_id q)"
    by (simp add: createWindow_id)
  show "spec_WindowID (createSessionID rnd)" by (rule createSessionID_WindowID)
next
  fix w0 assume "windows reg (s_id q) = Some w0"
  then show "fst (on_windowQuery debugMode now rnd q reg) =
           w0\<lparr>s_timeout := max (s_timeout w0) (s_timeout q), s_last := now\<rparr>"
    by (rule on_windowQuery_found)
next
  show "s_last (fst (on_windowQuery debugMode now rnd q reg)) = now"
    by (cases "windows reg (s_id q)") (simp_all add: on_windowQuery_new on_windowQuery_found)
next
  show "AllocateSessions_step debugMode now rnd (WindowQuery q) reg =
       (Some (fst (on_windowQuery debugMode now rnd q reg)),
        reg\<lparr>windows := (windows reg)(s_id (fst (on_windowQuery debugMode now rnd q reg)) \<mapsto>
                       fst (on_windowQuery debugMode now rnd q reg))\<rparr>)"
    using on_windowQuery_store[of debugMode now rnd q reg] by (simp add: split_beta)
next
  assume "windows_wf reg \<and> s_id q = []"
  then show "windows reg (s_id q) = None"
    by (cases "windows reg []") (fastforce simp: windows_wf_def)+
qed

text \<open>
  Claim C2 as stated fails: for the unknown id \<open>zzzzzzzz\<close> and a requested timeout of 60
  seconds the new window has the supplied id, which is no 8-hex id, and a timeout of 60 seconds
  instead of 30.
\<close>

theorem windowQuery_counterexample:
  "windows reg0 ''zzzzzzzz'' = None
   \<and> s_id (fst (on_windowQuery False 5 42 (zero_session\<lparr>s_id := ''zzzzzzzz'', s_timeout := 60 * Second\<rparr>) reg0)) = ''zzzzzzzz''
   \<and> \<not> spec_WindowID ''zzzzzzzz''
   \<and> s_timeout (fst (on_windowQuery False 5 42 (zero_session\<lparr>s_id := ''zzzzzzzz'', s_timeout := 60 * Second\<rparr>) reg0)) = 60 * Second
   \<and> 60 * Second \<noteq> 30 * Second"
  by (simp add: reg0_def on_windowQuery_def createWindow_def zero_session_def Second_def
        spec_WindowID_def isxdigit_def Let_def)

theorem windowQuery_reply_witness:
  "windows reg0 (s_id (zero_session\<lparr>s_timeout := 60 * Second\<rparr>)) = None
   \<and> s_id (fst (on_windowQuery False 5 42 (zero_session\<lparr>s_timeout := 60 * Second\<rparr>) reg0)) = ''0000002a''
   \<and> s_timeout (fst (on_windowQuery False 5 42 (zero_session\<lparr>s_timeout := 60 * Second\<rparr>) reg0)) = 60 * Second
   \<and> s_last (fst (on_windowQuery False 5 42 (zero_session\<lparr>s_timeout := 60 * Second\<rparr>) reg0)) = 5"
proof -
  have n: "windows reg0 (s_id (zero_session\<lparr>s_timeout := 60 * Second\<rparr>)) = None"
    by (simp add: reg0_def)
  have c: "createSessionID 42 = ''0000002a''" by code_simp
  from windowQuery_reply[of reg0 "zero_session\<lparr>s_timeout := 60 * Second\<rparr>" False 5 42] n c
  show ?thesis by (simp add: zero_session_def Second_def createWindow_id)
qed

lemma on_tabSave_fields:
  "tabs (on_tabSave t reg) = (tabs reg)(s_id t \<mapsto> t)"
  "windows (on_tabSave t reg) = windows reg"
  "stderr (on_tabSave t reg) = stderr reg"
  "cancelled (on_tabSave t reg) = cancelled reg"
  by (simp_all add: on_tabSave_def)

text \<open>
  Claim C4, as amended. \<open>TAB_SAVE\<close> stores the tab under its id and does nothing else: the
  window map is not consulted and nothing is logged. \<open>TAB_LOAD\<close> always replies with the
  stored tab (the zero session if there is none) and removes the id from the tab map; when
  the id parses and its window prefix is not in the window map, one warning is logged and the
  reply is delivered all the same; when the prefix is in the map, that window's \<open>last_used\<close>
  becomes the current time; when the id does not parse, the parse error is logged.
\<close>

theorem tab_save_load:
  "AllocateSessions_step debugMode now rnd (TabSave t) reg =
      (None, reg\<lparr>tabs := (tabs reg)(s_id t \<mapsto> t)\<rparr>)
   \<and> fst (AllocateSessions_step debugMode now rnd (TabLoadQuery ident) reg) =
        Some (case tabs reg ident of Some t \<Rightarrow> t | None \<Rightarrow> zero_session)
   \<and> tabs (snd (AllocateSessions_step debugMode now rnd (TabLoadQuery ident) reg)) =
        (tabs reg)(ident := None)
   \<and> (\<forall>p s. parseTabID ident = Inr (p, s) \<and> windows reg p = None \<longrightarrow>
         stderr (snd (AllocateSessions_step debugMode now rnd (TabLoadQuery ident) reg)) =
           stderr reg @ [''Tab ID ('' @ ident @ '') didn't match any window'' @ [CHR 0x0A]]
         \<and> windows (snd (AllocateSessions_step debugMode now rnd (TabLoadQuery ident) reg)) =
           windows reg)
   \<and> (\<forall>p s w. parseTabID ident = Inr (p, s) \<and> windows reg p = Some w \<longrightarrow>
         stderr (snd (AllocateSessions_step debugMode now rnd (TabLoadQuery ident) reg)) =
           stderr reg
         \<and> windows (snd (AllocateSessions_step debugMode now rnd (TabLoadQuery ident) reg)) =
           (windows reg)(p \<mapsto> w\<lparr>s_last := now\<rparr>))
   \<and> (\<forall>e. parseTabID ident = Inl e \<longrightarrow>
         stderr (snd (AllocateSessions_step debugMode now rnd (TabLoadQuery ident) reg)) =
           stderr reg @ [''Tab ID parse error: '' @ e @ [CHR 0x0A]]
         \<and> windows (snd (AllocateSessions_step debugMode now rnd (TabLoadQuery ident) reg)) =
           windows reg)"
  by (auto simp add: on_tabSave_def on_tabLoadQuery_def Let_def split_beta
        split: sum.splits option.splits)

text \<open>
  Claim C4 as stated fails: a tab whose window prefix \<open>deadbeef\<close> is not in the window map
  is saved without any warning, it is kept in the tab map, and a later \<open>TAB_LOAD\<close> delivers
  it.
\<close>

theorem tab_save_counterexample:
  "parseTabID (s_id tab_ex) = Inr (''deadbeef'', ''00000001'')
   \<and> windows reg0 ''deadbeef'' = None
   \<and> tabs (snd (AllocateSessions_step False 5 42 (TabSave tab_ex) reg0)) (s_id tab_ex) = Some tab_ex
   \<and> stderr (snd (AllocateSessions_step False 5 42 (TabSave tab_ex) reg0)) = []
   \<and> fst (AllocateSessions_step False 6 43 (TabLoadQuery (s_id tab_ex))
           (snd (AllocateSessions_step False 5 42 (TabSave tab_ex) reg0))) = Some tab_ex"
  by (simp add: tab_ex_def reg0_def on_tabSave_def on_tabLoadQuery_def Let_def
        parseTabID_def tabRegexp_def isxdigit_def)

theorem tab_save_load_witness:
  "parseTabID (s_id tab_ex) = Inr (''deadbeef'', ''00000001'')
   \<and> windows (on_tabSave tab_ex reg0) ''deadbeef'' = None
   \<and> fst (AllocateSessions_step False 6 43 (TabLoadQuery (s_id tab_ex)) (on_tabSave tab_ex reg0))
       = Some tab_ex
   \<and> tabs (snd (AllocateSessions_step False 6 43 (TabLoadQuery (s_id tab_ex)) (on_tabSave tab_ex reg0)))
       = Map.empty
   \<and> stderr (snd (AllocateSessions_step False 6 43 (TabLoadQuery (s_id tab_ex)) (on_tabSave tab_ex reg0)))
       = [''Tab ID (deadbeef_00000001) didn't match any window'' @ [CHR 0x0A]]"
proof -
  have p: "parseTabID (s_id tab_ex) = Inr (''deadbeef'', ''00000001'')"
    by (simp add: tab_ex_def parseTabID_def tabRegexp_def isxdigit_def)
  have w: "windows (on_tabSave tab_ex reg0) ''deadbeef'' = None"
    by (simp add: on_tabSave_def reg0_def)
  have i: "s_id tab_ex = ''deadbeef_00000001''" by (simp add: tab_ex_def)
  from tab_save_load[of False 6 43 tab_ex "on_tabSave tab_ex reg0" "s_id tab_ex"] p w i
  show ?thesis by (simp add: on_tabSave_fields reg0_def)
qed

text \<open>
  Claim C5. A tab created by \<open>createSiblingTabWithTimeout\<close> with requested timeout \<open>t\<close>
  has timeout \<open>t\<close> (also as the deadline of its context), and \<open>t\<close> never exceeds the timeout of
  the window it is created under: when \<open>t\<close> is larger than the timeout of the receiver, the
  window is first fetched again from the registry with timeout \<open>t\<close>, which raises the stored
  timeout to at least \<open>t\<close>; otherwise the receiver and the registry are unchanged.
\<close>

theorem sibling_timeout_le_window:
  "fst (createSiblingTabWithTimeout debugMode now rnd_w rnd_t ses t reg) = tab \<and>
   fst (snd (createSiblingTabWithTimeout debugMode now rnd_w rnd_t ses t reg)) = win \<and>
   snd (snd (createSiblingTabWithTimeout debugMode now rnd_w rnd_t ses t reg)) = reg'
   \<Longrightarrow>
     s_timeout tab = t
   \<and> s_ctx tab = WithTimeout (NewContext (s_ctx win)) t
   \<and> s_id tab = s_id win @ ''_'' @ createSessionID rnd_t
   \<and> s_timeout tab \<le> s_timeout win
   \<and> (t > s_timeout ses \<longrightarrow>
         loadWindow debugMode now rnd_w (s_id ses) t reg = (win, reg')
         \<and> windows reg' (s_id win) = Some win
         \<and> (\<forall>w0. windows reg (s_id ses) = Some w0 \<longrightarrow>
               win = w0\<lparr>s_timeout := max (s_timeout w0) t, s_last := now\<rparr>))
   \<and> (\<not> t > s_timeout ses \<longrightarrow> win = ses \<and> reg' = reg)"
proof (cases "t > s_timeout ses")
  case True
  let ?q = "zero_session\<lparr>s_id := s_id ses, s_timeout := t\<rparr>"
  let ?r = "on_windowQuery debugMode now rnd_w ?q reg"
  assume a: "fst (createSiblingTabWithTimeout debugMode now rnd_w rnd_t ses t reg) = tab \<and>
   fst (snd (createSiblingTabWithTimeout debugMode now rnd_w rnd_t ses t reg)) = win \<and>
   snd (snd (createSiblingTabWithTimeout debugMode now rnd_w rnd_t ses t reg)) = reg'"
  have c: "createSiblingTabWithTimeout debugMode now rnd_w rnd_t ses t reg =
        (\<lparr>s_ctx = WithTimeout (NewContext (s_ctx (fst ?r))) t,
          s_cancel = ClosePage (WithTimeout (NewContext (s_ctx (fst ?r))) t),
          s_id = s_id (fst ?r) @ ''_'' @ createSessionID rnd_t, s_last = 0, s_timeout = t\<rparr>,
         fst ?r, snd ?r)"
    using True by (simp add: createSiblingTabWithTimeout_def loadWindow_def Let_def split_beta)
  from a c have tab: "tab = \<lparr>s_ctx = WithTimeout (NewContext (s_ctx win)) t,
          s_cancel = ClosePage (WithTimeout (NewContext (s_ctx win)) t),
          s_id = s_id win @ ''_'' @ createSessionID rnd_t, s_last = 0, s_timeout = t\<rparr>"
    and win: "win = fst ?r" and reg': "reg' = snd ?r" by auto
  have ge: "t \<le> s_timeout win"
    using on_windowQuery_timeout_ge[of ?q debugMode now rnd_w reg] win by simp
  have st: "windows reg' (s_id win) = Some win"
    unfolding reg' win by (subst on_windowQuery_store) simp
  have f: "\<forall>w0. windows reg (s_id ses) = Some w0 \<longrightarrow>
               win = w0\<lparr>s_timeout := max (s_timeout w0) t, s_last := now\<rparr>"
    unfolding win using on_windowQuery_found[of reg ?q _ debugMode now rnd_w] by simp
  show ?thesis using True tab ge st f win reg' by (simp add: loadWindow_def)
next
  case False
  assume a: "fst (createSiblingTabWithTimeout debugMode now rnd_w rnd_t ses t reg) = tab \<and>
   fst (snd (createSiblingTabWithTimeout debugMode now rnd_w rnd_t ses t reg)) = win \<and>
   snd (snd (createSiblingTabWithTimeout debugMode now rnd_w rnd_t ses t reg)) = reg'"
  then show ?thesis using False
    by (auto simp add: createSiblingTabWithTimeout_def Let_def)
qed

theorem sibling_timeout_le_window_witness:
  "s_timeout (fst (createSiblingTabWithTimeout False 5 42 43 win_ex (60 * Second)
                     (reg0\<lparr>windows := [''deadbeef'' \<mapsto> win_ex]\<rparr>))) = 60 * Second
   \<and> s_id (fst (createSiblingTabWithTimeout False 5 42 43 win_ex (60 * Second)
                     (reg0\<lparr>windows := [''deadbeef'' \<mapsto> win_ex]\<rparr>))) = ''deadbeef_0000002b''
   \<and> 60 * Second > s_timeout win_ex
   \<and> fst (snd (createSiblingTabWithTimeout False 5 42 43 win_ex (60 * Second)
                     (reg0\<lparr>windows := [''deadbeef'' \<mapsto> win_ex]\<rparr>)))
       = win_ex\<lparr>s_timeout := 60 * Second, s_last := 5\<rparr>"
proof -
  have c: "createSessionID 43 = ''0000002b''" by code_simp
  have g: "60 * Second > s_timeout win_ex" by (simp add: win_ex_def Second_def)
  have w: "windows (reg0\<lparr>windows := [''deadbeef'' \<mapsto> win_ex]\<rparr>) (s_id win_ex) = Some win_ex"
    by (simp add: win_ex_def)
  have m: "max (s_timeout win_ex) (60 * Second) = 60 * Second" using g by simp
  have i: "s_id win_ex = ''deadbeef''" by (simp add: win_ex_def)
  from sibling_timeout_le_window[OF conjI[OF refl conjI[OF refl refl]],
        of False 5 42 43 win_ex "60 * Second" "reg0\<lparr>windows := [''deadbeef'' \<mapsto> win_ex]\<rparr>"]
    c g w m i
  show ?thesis by simp
qed

end
